theory Spec2Isabelle
  imports Main
begin

section \<open>The relational schema and its triggers\<close>

text \<open>
  The MySQL schema keeps sections, student profiles, enrollments, waitlist rows and an
  audit log. Only the columns that the four triggers read or write are kept in the
  rows below. Two tables share the column names \<open>section_id\<close> and \<open>student_id\<close>;
  a record field must be unique, so the columns carry the initial of their table
  (\<open>e_section_id\<close> for \<open>enrollment.section_id\<close>, \<open>w_section_id\<close> for
  \<open>waitlist.section_id\<close>, and so on).

  A table that the triggers look up by its primary key is a map from the key (the
  table \<open>section\<close> is the field \<open>sections\<close>, and \<open>student_profile\<close>); a
  table whose rows are counted or ordered is a list in insertion order
  (\<open>enrollment\<close>, \<open>waitlist\<close>, \<open>audit_log\<close>).
\<close>

datatype enrollment_status = Enrolled | Dropped | Completed | Withdrawn

datatype section_status = Scheduled | Cancelled | Section_Completed

record section_row =
  s_capacity :: int
  s_status :: section_status

record enrollment_row =
  enrollment_id :: int
  e_student_id :: int
  e_section_id :: int
  enrollment_status :: enrollment_status

record waitlist_row =
  waitlist_id :: int
  w_section_id :: int
  w_student_id :: int
  position :: int

text \<open>The \<open>details\<close> column holds one of the two JSON objects the triggers build.\<close>

datatype json_details =
  Create_Details int enrollment_status
  | Update_Details enrollment_status enrollment_status

record audit_log_row =
  a_user_id :: int
  action_type :: string
  object_type :: string
  object_id :: int
  details :: json_details

text \<open>
  \<open>student_profile\<close> maps \<open>student_id\<close> to the profile's \<open>user_id\<close>. That column
  is \<open>NOT NULL\<close> with a foreign key to \<open>user_account\<close>, so the join of a profile
  with \<open>user_account\<close> in the audit triggers yields exactly one row per profile.
\<close>

record ocrs_db =
  sections :: "int \<rightharpoonup> section_row"
  student_profile :: "int \<rightharpoonup> int"
  enrollment :: "enrollment_row list"
  waitlist :: "waitlist_row list"
  audit_log :: "audit_log_row list"

datatype sql_error =
  Section_Full
  | Duplicate_Entry
  | Foreign_Key_Fails
  | Out_Of_Range

text \<open>\<open>MAX\<close> over a column is \<open>NULL\<close> on no rows; \<open>COALESCE\<close> replaces \<open>NULL\<close>.\<close>

fun sql_max :: "int list \<Rightarrow> int option" where
  "sql_max [] = None"
| "sql_max (x # xs) = (case sql_max xs of None \<Rightarrow> Some x | Some m \<Rightarrow> Some (max x m))"

definition coalesce :: "int option \<Rightarrow> int \<Rightarrow> int" where
  "coalesce v d = (case v of None \<Rightarrow> d | Some x \<Rightarrow> x)"

text \<open>The range of the \<open>INT\<close> type of \<open>next_position\<close> and of the \<open>position\<close> column.\<close>

definition in_int_range :: "int \<Rightarrow> bool" where
  "in_int_range v = (- 2147483648 \<le> v \<and> v \<le> 2147483647)"

definition section_positions :: "ocrs_db \<Rightarrow> int \<Rightarrow> int list" where
  "section_positions db sec =
     map position (filter (\<lambda>w. w_section_id w = sec) (waitlist db))"

text \<open>
  Trigger \<open>before_waitlist_insert\<close>: \<open>next_position\<close> is
  \<open>COALESCE(MAX(position), 0) + 1\<close> over the rows of the new row's section, and
  replaces the position of the new row. A value outside \<open>INT\<close> is an error (strict
  SQL mode, the default of MySQL 8.0).
\<close>

definition before_waitlist_insert :: "ocrs_db \<Rightarrow> waitlist_row \<Rightarrow> sql_error + waitlist_row" where
  "before_waitlist_insert db new =
     (let next_position = coalesce (sql_max (section_positions db (w_section_id new))) 0 + 1
      in if in_int_range next_position then Inr (new\<lparr>position := next_position\<rparr>)
         else Inl Out_Of_Range)"

text \<open>
  \<open>INSERT INTO waitlist\<close>. The \<open>waitlist_id\<close> of the new row, which
  \<open>AUTO_INCREMENT\<close> or the statement chooses, is the parameter \<open>wid\<close>. The
  trigger runs first; then the primary key, the unique key \<open>(section_id, student_id)\<close>
  and the two foreign keys are checked, and the row is appended. No trigger of the
  schema runs after it.
\<close>

definition insert_waitlist ::
    "ocrs_db \<Rightarrow> int \<Rightarrow> int \<Rightarrow> int \<Rightarrow> int \<Rightarrow> sql_error + ocrs_db" where
  "insert_waitlist db wid sec stu pos =
     (case before_waitlist_insert db
             \<lparr>waitlist_id = wid, w_section_id = sec, w_student_id = stu, position = pos\<rparr> of
        Inl e \<Rightarrow> Inl e
      | Inr new \<Rightarrow>
          if list_ex (\<lambda>w. waitlist_id w = wid \<or> (w_section_id w = sec \<and> w_student_id w = stu))
                     (waitlist db)
          then Inl Duplicate_Entry
          else if sections db sec = None \<or> student_profile db stu = None
          then Inl Foreign_Key_Fails
          else Inr (db\<lparr>waitlist := waitlist db @ [new]\<rparr>))"

text \<open>
  \<open>DELETE FROM waitlist WHERE section_id = sec AND student_id = stu\<close>. The schema
  declares no trigger on deletes, so the other rows stay as they are.
\<close>

definition delete_waitlist :: "ocrs_db \<Rightarrow> int \<Rightarrow> int \<Rightarrow> ocrs_db" where
  "delete_waitlist db sec stu =
     db\<lparr>waitlist := filter (\<lambda>w. \<not> (w_section_id w = sec \<and> w_student_id w = stu)) (waitlist db)\<rparr>"

definition enrolled_count :: "ocrs_db \<Rightarrow> int \<Rightarrow> int" where
  "enrolled_count db sec =
     int (length (filter (\<lambda>e. e_section_id e = sec \<and> enrollment_status e = Enrolled)
                         (enrollment db)))"

text \<open>
  Trigger \<open>before_enrollment_insert\<close>: it reads the capacity of the new row's section
  and counts the section's rows with status \<open>Enrolled\<close>; it signals SQLSTATE 45000,
  "Section is at full capacity", when the count has reached the capacity. With no
  such section the capacity is \<open>NULL\<close>, the comparison is not true and nothing is
  signalled.
\<close>

definition before_enrollment_insert :: "ocrs_db \<Rightarrow> enrollment_row \<Rightarrow> sql_error + unit" where
  "before_enrollment_insert db new =
     (let section_capacity = map_option s_capacity (sections db (e_section_id new));
          current_enrollment = enrolled_count db (e_section_id new)
      in case section_capacity of
           None \<Rightarrow> Inr ()
         | Some c \<Rightarrow> if current_enrollment \<ge> c then Inl Section_Full else Inr ())"

text \<open>
  Trigger \<open>after_enrollment_insert\<close>: one \<open>ENROLLMENT_CREATE\<close> row for each row
  of the join of the student's profile with the user account.
\<close>

definition after_enrollment_insert :: "ocrs_db \<Rightarrow> enrollment_row \<Rightarrow> ocrs_db" where
  "after_enrollment_insert db new =
     db\<lparr>audit_log := audit_log db @
        (case student_profile db (e_student_id new) of
           None \<Rightarrow> []
         | Some u \<Rightarrow>
             [\<lparr>a_user_id = u, action_type = ''ENROLLMENT_CREATE'',
               object_type = ''enrollment'', object_id = enrollment_id new,
               details = Create_Details (e_section_id new) (enrollment_status new)\<rparr>])\<rparr>"

text \<open>Trigger \<open>after_enrollment_update\<close>, with the row before and after the update.\<close>

definition after_enrollment_update :: "ocrs_db \<Rightarrow> enrollment_row \<Rightarrow> enrollment_row \<Rightarrow> ocrs_db" where
  "after_enrollment_update db old new =
     db\<lparr>audit_log := audit_log db @
        (case student_profile db (e_student_id new) of
           None \<Rightarrow> []
         | Some u \<Rightarrow>
             [\<lparr>a_user_id = u, action_type = ''ENROLLMENT_UPDATE'',
               object_type = ''enrollment'', object_id = enrollment_id new,
               details = Update_Details (enrollment_status old) (enrollment_status new)\<rparr>])\<rparr>"

text \<open>
  \<open>INSERT INTO enrollment\<close>, with the \<open>enrollment_id\<close> of the new row as the
  parameter \<open>eid\<close>: the before-trigger, the primary key, the unique key
  \<open>(student_id, section_id)\<close>, the foreign keys, the new row, the after-trigger.
\<close>

definition insert_enrollment ::
    "ocrs_db \<Rightarrow> int \<Rightarrow> int \<Rightarrow> int \<Rightarrow> enrollment_status \<Rightarrow> sql_error + ocrs_db" where
  "insert_enrollment db eid stu sec st =
     (let new = \<lparr>enrollment_id = eid, e_student_id = stu, e_section_id = sec,
                 enrollment_status = st\<rparr>
      in case before_enrollment_insert db new of
           Inl e \<Rightarrow> Inl e
         | Inr _ \<Rightarrow>
             if list_ex (\<lambda>e. enrollment_id e = eid \<or> (e_student_id e = stu \<and> e_section_id e = sec))
                        (enrollment db)
             then Inl Duplicate_Entry
             else if sections db sec = None \<or> student_profile db stu = None
             then Inl Foreign_Key_Fails
             else Inr (after_enrollment_insert (db\<lparr>enrollment := enrollment db @ [new]\<rparr>) new))"

text \<open>
  \<open>UPDATE enrollment SET enrollment_status = st WHERE student_id = stu AND
  section_id = sec\<close>: every matching row is rewritten and the after-trigger runs
  once for each of them, in table order.
\<close>

definition update_enrollment ::
    "ocrs_db \<Rightarrow> int \<Rightarrow> int \<Rightarrow> enrollment_status \<Rightarrow> ocrs_db" where
  "update_enrollment db stu sec st =
     fold (\<lambda>old d. after_enrollment_update d old (old\<lparr>enrollment_status := st\<rparr>))
          (filter (\<lambda>e. e_student_id e = stu \<and> e_section_id e = sec) (enrollment db))
          (db\<lparr>enrollment :=
                map (\<lambda>e. if e_student_id e = stu \<and> e_section_id e = sec
                          then e\<lparr>enrollment_status := st\<rparr> else e)
                    (enrollment db)\<rparr>)"

text \<open>
  A session is a list of statements: an insert into enrollment (id, student, section,
  status), a status update (student, section, new status), an insert into the waitlist
  (id, section, student, supplied position) and a delete from it (section, student).
  A statement that fails is rolled back and leaves every table as it was.
\<close>

datatype statement =
  Insert_Enrollment int int int enrollment_status
  | Update_Enrollment int int enrollment_status
  | Insert_Waitlist int int int int
  | Delete_Waitlist int int

definition or_unchanged :: "ocrs_db \<Rightarrow> sql_error + ocrs_db \<Rightarrow> ocrs_db" where
  "or_unchanged db r = (case r of Inl _ \<Rightarrow> db | Inr db' \<Rightarrow> db')"

fun execute :: "ocrs_db \<Rightarrow> statement \<Rightarrow> ocrs_db" where
  "execute db (Insert_Enrollment eid stu sec st) = or_unchanged db (insert_enrollment db eid stu sec st)"
| "execute db (Update_Enrollment stu sec st) = update_enrollment db stu sec st"
| "execute db (Insert_Waitlist wid sec stu pos) = or_unchanged db (insert_waitlist db wid sec stu pos)"
| "execute db (Delete_Waitlist sec stu) = delete_waitlist db sec stu"

definition run :: "ocrs_db \<Rightarrow> statement list \<Rightarrow> ocrs_db" where
  "run db stmts = foldl execute db stmts"



text \<open>The statements that remove a waitlist row, and those that set a status to \<open>Enrolled\<close>.\<close>

fun is_delete :: "statement \<Rightarrow> bool" where
  "is_delete (Delete_Waitlist sec stu) = True"
| "is_delete _ = False"

fun sets_enrolled :: "statement \<Rightarrow> bool" where
  "sets_enrolled (Update_Enrollment stu sec st) = (st = Enrolled)"
| "sets_enrolled _ = False"

text \<open>
  The two invariants of the data model: every section's positions, in insertion order,
  are \<open>1, 2, ..., N\<close>; every section's count of \<open>Enrolled\<close> rows is at most its
  capacity.
\<close>

definition gapless :: "ocrs_db \<Rightarrow> bool" where
  "gapless db =
     (\<forall>sec. section_positions db sec = [1..int (length (section_positions db sec))])"

definition capacity_respected :: "ocrs_db \<Rightarrow> bool" where
  "capacity_respected db =
     (\<forall>sec r. sections db sec = Some r \<longrightarrow> enrolled_count db sec \<le> s_capacity r)"

text \<open>
  Sample databases: a section with one seat and nobody in it; the same section full,
  with one student waiting; a section with two students waiting at positions 1 and 5.
\<close>

definition one_seat :: ocrs_db where
  "one_seat =
     \<lparr>sections = [1 \<mapsto> \<lparr>s_capacity = 1, s_status = Scheduled\<rparr>],
      student_profile = [1 \<mapsto> 9, 2 \<mapsto> 10, 3 \<mapsto> 11],
      enrollment = [], waitlist = [], audit_log = []\<rparr>"

definition full_with_queue :: ocrs_db where
  "full_with_queue =
     \<lparr>sections = [1 \<mapsto> \<lparr>s_capacity = 1, s_status = Scheduled\<rparr>],
      student_profile = [1 \<mapsto> 9, 2 \<mapsto> 10, 3 \<mapsto> 11],
      enrollment =
        [\<lparr>enrollment_id = 101, e_student_id = 1, e_section_id = 1, enrollment_status = Enrolled\<rparr>],
      waitlist =
        [\<lparr>waitlist_id = 202, w_section_id = 1, w_student_id = 2, position = 1\<rparr>],
      audit_log =
        [\<lparr>a_user_id = 9, action_type = ''ENROLLMENT_CREATE'', object_type = ''enrollment'',
          object_id = 101, details = Create_Details 1 Enrolled\<rparr>]\<rparr>"

definition queue_of_two :: ocrs_db where
  "queue_of_two =
     \<lparr>sections = [1 \<mapsto> \<lparr>s_capacity = 1, s_status = Scheduled\<rparr>,
                  2 \<mapsto> \<lparr>s_capacity = 5, s_status = Scheduled\<rparr>],
      student_profile = [1 \<mapsto> 9, 2 \<mapsto> 10, 3 \<mapsto> 11],
      enrollment = [],
      waitlist =
        [\<lparr>waitlist_id = 201, w_section_id = 1, w_student_id = 1, position = 1\<rparr>,
         \<lparr>waitlist_id = 211, w_section_id = 2, w_student_id = 1, position = 8\<rparr>,
         \<lparr>waitlist_id = 202, w_section_id = 1, w_student_id = 2, position = 5\<rparr>],
      audit_log = []\<rparr>"

section \<open>The client's in-memory database and its handlers\<close>

text \<open>
  The React client keeps one object \<open>db\<close> in component state. Its fields \<open>users\<close>,
  \<open>courses\<close> and \<open>enrollments\<close> are modelled; the others (\<open>departments\<close>,
  \<open>failedLogins\<close>, \<open>galleryImages\<close>) are the extension part of the record, which
  a record update keeps as the spread \<open>...prev\<close> does. The field \<open>id\<close> of the
  three kinds of object is written \<open>u_id\<close>, \<open>c_id\<close> and \<open>en_id\<close>. Numbers are
  integers here.
\<close>

record user =
  u_id :: int
  username :: string
  role :: string

record course =
  c_id :: int
  code :: string
  capacity :: int
  enrolled :: int

record enrollment_obj =
  en_id :: int
  studentId :: int
  courseId :: int
  status :: string
  enrolledDate :: string

record database =
  users :: "user list"
  courses :: "course list"
  enrollments :: "enrollment_obj list"

text \<open>\<open>showNotification(message, type)\<close> is the handler's only report to the user.\<close>

type_synonym notification = "string \<times> string"

text \<open>
  \<open>handleEnroll(courseId)\<close>. The handler reads the logged-in user's id and today's
  date; both are parameters. It returns the next database and the notification shown,
  if any. The check reads the rendered \<open>db\<close> and the update the state \<open>prev\<close>;
  they are the same object when calls do not overlap.
\<close>

definition handleEnroll ::
    "'a database_scheme \<Rightarrow> int \<Rightarrow> string \<Rightarrow> int \<Rightarrow> 'a database_scheme \<times> notification option" where
  "handleEnroll db currentUser_id today cid =
     (case find (\<lambda>c. c_id c = cid) (courses db) of
        None \<Rightarrow> (db, None)
      | Some c \<Rightarrow>
          if enrolled c \<ge> capacity c then (db, Some (''Course full'', ''error''))
          else
            (db\<lparr>enrollments := enrollments db @
                   [\<lparr>en_id = int (length (enrollments db)) + 1,
                     studentId = currentUser_id, courseId = cid,
                     status = ''enrolled'', enrolledDate = today\<rparr>],
                 courses := map (\<lambda>c. if c_id c = cid then c\<lparr>enrolled := enrolled c + 1\<rparr> else c)
                                (courses db)\<rparr>,
             Some (''Enrolled successfully'', ''success'')))"

text \<open>\<open>handleDrop(courseId)\<close>: no check comes before the update.\<close>

definition handleDrop ::
    "'a database_scheme \<Rightarrow> int \<Rightarrow> int \<Rightarrow> 'a database_scheme \<times> notification option" where
  "handleDrop db currentUser_id cid =
     (db\<lparr>enrollments := map (\<lambda>e. if studentId e = currentUser_id \<and> courseId e = cid
                                  then e\<lparr>status := ''dropped''\<rparr> else e)
                            (enrollments db),
          courses := map (\<lambda>c. if c_id c = cid then c\<lparr>enrolled := enrolled c - 1\<rparr> else c)
                         (courses db)\<rparr>,
      Some (''Course dropped'', ''success''))"


text \<open>
  The admin panel's \<open>handleAddCourse()\<close> and \<open>handleDeleteCourse(courseId)\<close>. Of
  the form \<open>courseForm\<close> the three required fields and the capacity are kept; the
  capacity is the integer that \<open>parseInt\<close> reads. The new course gets the number of
  courses plus one as its id.
\<close>

record course_form =
  form_code :: string
  form_title :: string
  form_department :: string
  form_capacity :: int

definition handleAddCourse ::
    "'a database_scheme \<Rightarrow> course_form \<Rightarrow> 'a database_scheme \<times> notification option" where
  "handleAddCourse db courseForm =
     (if form_code courseForm = [] \<or> form_title courseForm = [] \<or> form_department courseForm = []
      then (db, Some (''Fill all required fields'', ''error''))
      else
        (db\<lparr>courses := courses db @
               [\<lparr>c_id = int (length (courses db)) + 1, code = form_code courseForm,
                 capacity = form_capacity courseForm, enrolled = 0\<rparr>]\<rparr>,
         Some (''Course added successfully'', ''success'')))"

definition handleDeleteCourse ::
    "'a database_scheme \<Rightarrow> int \<Rightarrow> 'a database_scheme \<times> notification option" where
  "handleDeleteCourse db cid =
     (db\<lparr>courses := filter (\<lambda>c. c_id c \<noteq> cid) (courses db)\<rparr>,
      Some (''Course deleted'', ''success''))"

text \<open>\<open>initializeDatabase()\<close>, with the modelled fields.\<close>

definition initializeDatabase :: database where
  "initializeDatabase =
     \<lparr>users =
        [\<lparr>u_id = 1, username = ''johndoe'', role = ''student''\<rparr>,
         \<lparr>u_id = 2, username = ''drsmith'', role = ''admin''\<rparr>],
      courses =
        [\<lparr>c_id = 1, code = ''CMSC495'', capacity = 30, enrolled = 18\<rparr>,
         \<lparr>c_id = 2, code = ''CMSC330'', capacity = 25, enrolled = 20\<rparr>,
         \<lparr>c_id = 3, code = ''CMSC220'', capacity = 30, enrolled = 22\<rparr>,
         \<lparr>c_id = 4, code = ''CMSC351'', capacity = 28, enrolled = 15\<rparr>],
      enrollments =
        [\<lparr>en_id = 1, studentId = 1, courseId = 1, status = ''enrolled'',
          enrolledDate = ''2025-10-15''\<rparr>]\<rparr>"

text \<open>A client database whose only course is full.\<close>

definition full_course :: database where
  "full_course =
     \<lparr>users =
        [\<lparr>u_id = 1, username = ''johndoe'', role = ''student''\<rparr>,
         \<lparr>u_id = 3, username = ''janeroe'', role = ''student''\<rparr>],
      courses = [\<lparr>c_id = 1, code = ''CMSC495'', capacity = 1, enrolled = 1\<rparr>],
      enrollments =
        [\<lparr>en_id = 1, studentId = 1, courseId = 1, status = ''enrolled'',
          enrolledDate = ''2025-10-15''\<rparr>]\<rparr>"


text \<open>
  From the initial database the admin deletes course 1 and adds a seminar with one
  seat, which gets the id 4 that CMSC351 has; then users 1 and 3 each enroll in
  course 4.
\<close>

definition seminar_form :: course_form where
  "seminar_form =
     \<lparr>form_code = ''CMSC498'', form_title = ''Seminar'', form_department = ''Computer Science'',
      form_capacity = 1\<rparr>"

definition two_courses_one_id :: database where
  "two_courses_one_id =
     fst (handleEnroll
            (fst (handleEnroll
                    (fst (handleAddCourse (fst (handleDeleteCourse initializeDatabase 1)) seminar_form))
                    1 ''2025-11-10'' 4))
            3 ''2025-11-10'' 4)"

section \<open>What each statement leaves alone\<close>

lemmas sql_eval =
  run_def or_unchanged_def insert_enrollment_def before_enrollment_insert_def
  after_enrollment_insert_def after_enrollment_update_def update_enrollment_def
  insert_waitlist_def before_waitlist_insert_def delete_waitlist_def enrolled_count_def
  section_positions_def coalesce_def in_int_range_def Let_def


lemma sql_max_snoc:
  "sql_max (xs @ [x]) = Some (case sql_max xs of None \<Rightarrow> x | Some m \<Rightarrow> max m x)"
  by (induction xs) (auto split: option.splits)

lemma sql_max_upto: "sql_max [1..int n] = (if n = 0 then None else Some (int n))"
proof (induction n)
  case 0
  show ?case by simp
next
  case (Suc n)
  have "[1..int (Suc n)] = [1..int n] @ [int n + 1]"
    using upto_rec2 [of 1 "int (Suc n)"] by (simp add: add.commute)
  then show ?case using Suc by (simp add: sql_max_snoc)
qed

lemma coalesce_upto: "coalesce (sql_max [1..int n]) 0 = int n"
  by (simp add: sql_max_upto coalesce_def)

lemma fold_update_trigger_fields:
  "sections (fold (\<lambda>old d. after_enrollment_update d old (g old)) xs d) = sections d
   \<and> student_profile (fold (\<lambda>old d. after_enrollment_update d old (g old)) xs d) = student_profile d
   \<and> enrollment (fold (\<lambda>old d. after_enrollment_update d old (g old)) xs d) = enrollment d
   \<and> waitlist (fold (\<lambda>old d. after_enrollment_update d old (g old)) xs d) = waitlist d"
  by (induction xs arbitrary: d) (simp_all add: after_enrollment_update_def)

lemma update_enrollment_fields:
  "sections (update_enrollment db stu sec st) = sections db"
  "student_profile (update_enrollment db stu sec st) = student_profile db"
  "waitlist (update_enrollment db stu sec st) = waitlist db"
  "enrollment (update_enrollment db stu sec st) =
     map (\<lambda>e. if e_student_id e = stu \<and> e_section_id e = sec
               then e\<lparr>enrollment_status := st\<rparr> else e) (enrollment db)"
  by (simp_all add: update_enrollment_def fold_update_trigger_fields)

lemma insert_enrollment_fields:
  assumes "insert_enrollment db eid stu sec st = Inr db'"
  shows "sections db' = sections db" "student_profile db' = student_profile db"
    "waitlist db' = waitlist db"
    "enrollment db' = enrollment db @
       [\<lparr>enrollment_id = eid, e_student_id = stu,
         e_section_id = sec, enrollment_status = st\<rparr>]"
  using assms
  by (auto simp: insert_enrollment_def Let_def after_enrollment_insert_def
           split: sum.splits if_splits)

lemma insert_waitlist_fields:
  assumes "insert_waitlist db wid sec stu pos = Inr db'"
  shows "sections db' = sections db" "student_profile db' = student_profile db"
    "enrollment db' = enrollment db" "audit_log db' = audit_log db"
  using assms
  by (auto simp: insert_waitlist_def split: sum.splits if_splits)

lemma delete_waitlist_fields:
  "sections (delete_waitlist db sec stu) = sections db"
  "student_profile (delete_waitlist db sec stu) = student_profile db"
  "enrollment (delete_waitlist db sec stu) = enrollment db"
  "audit_log (delete_waitlist db sec stu) = audit_log db"
  by (simp_all add: delete_waitlist_def)

lemma insert_waitlist_stored:
  assumes "insert_waitlist db wid sec stu pos = Inr db'"
  shows "waitlist db' = waitlist db @
           [\<lparr>waitlist_id = wid, w_section_id = sec, w_student_id = stu,
             position = coalesce (sql_max (section_positions db sec)) 0 + 1\<rparr>]"
  using assms
  by (auto simp: insert_waitlist_def before_waitlist_insert_def Let_def
           split: if_splits sum.splits)

lemma section_positions_cong:
  "waitlist db' = waitlist db \<Longrightarrow> section_positions db' s = section_positions db s"
  by (simp add: section_positions_def)

lemma enrolled_count_cong:
  "enrollment db' = enrollment db \<Longrightarrow> enrolled_count db' s = enrolled_count db s"
  by (simp add: enrolled_count_def)

lemma sections_execute: "sections (execute db s) = sections db"
proof (cases s)
  case (Insert_Enrollment eid stu sec st)
  then show ?thesis
    using insert_enrollment_fields(1) [of db eid stu sec st]
    by (cases "insert_enrollment db eid stu sec st") (simp_all add: or_unchanged_def)
next
  case (Update_Enrollment stu sec st)
  then show ?thesis by (simp add: update_enrollment_fields)
next
  case (Insert_Waitlist wid sec stu pos)
  then show ?thesis
    using insert_waitlist_fields(1) [of db wid sec stu pos]
    by (cases "insert_waitlist db wid sec stu pos") (simp_all add: or_unchanged_def)
next
  case (Delete_Waitlist sec stu)
  then show ?thesis by (simp add: delete_waitlist_fields)
qed

lemma sections_run: "sections (run db stmts) = sections db"
  unfolding run_def
  by (induction stmts arbitrary: db) (simp_all add: sections_execute)

section \<open>Waitlist positions\<close>

lemma gapless_cong:
  assumes "waitlist db' = waitlist db"
  shows "gapless db' = gapless db"
proof -
  have h: "section_positions db' s = section_positions db s" for s
    using assms by (rule section_positions_cong)
  show ?thesis unfolding gapless_def by (simp only: h)
qed

lemma gapless_insert_waitlist:
  assumes g: "gapless db" and i: "insert_waitlist db wid sec stu pos = Inr db'"
  shows "gapless db'"
proof -
  let ?n = "length (section_positions db sec)"
  have ps: "section_positions db sec = [1..int ?n]"
    using g by (simp add: gapless_def)
  have nxt: "coalesce (sql_max (section_positions db sec)) 0 + 1 = int ?n + 1"
    using coalesce_upto [of ?n] ps by simp
  have w: "waitlist db' = waitlist db @
           [\<lparr>waitlist_id = wid, w_section_id = sec, w_student_id = stu,
             position = int ?n + 1\<rparr>]"
    using insert_waitlist_stored [OF i] nxt by simp
  have same: "section_positions db' sec = section_positions db sec @ [int ?n + 1]"
    by (simp add: section_positions_def w)
  have other: "s \<noteq> sec \<Longrightarrow> section_positions db' s = section_positions db s" for s
    by (simp add: section_positions_def w)
  have "[1..int ?n + 1] = [1..int ?n] @ [int ?n + 1]"
    using upto_rec2 [of 1 "int ?n + 1"] by simp
  then have "section_positions db' sec = [1..int (length (section_positions db' sec))]"
    using same ps by (simp add: add.commute)
  then show ?thesis
    using g other unfolding gapless_def by metis
qed

lemma gapless_execute:
  assumes "gapless db" and "\<not> is_delete s"
  shows "gapless (execute db s)"
proof (cases s)
  case (Insert_Enrollment eid stu sec st)
  show ?thesis
  proof (cases "insert_enrollment db eid stu sec st")
    case (Inl e)
    then show ?thesis using assms(1) Insert_Enrollment by (simp add: or_unchanged_def)
  next
    case (Inr db')
    then show ?thesis
      using assms(1) Insert_Enrollment gapless_cong [OF insert_enrollment_fields(3) [OF Inr]]
      by (simp add: or_unchanged_def)
  qed
next
  case (Update_Enrollment stu sec st)
  then show ?thesis
    using assms(1) gapless_cong [OF update_enrollment_fields(3), of db stu sec st] by simp
next
  case (Insert_Waitlist wid sec stu pos)
  show ?thesis
  proof (cases "insert_waitlist db wid sec stu pos")
    case (Inl e)
    then show ?thesis using assms(1) Insert_Waitlist by (simp add: or_unchanged_def)
  next
    case (Inr db')
    then show ?thesis
      using Insert_Waitlist gapless_insert_waitlist [OF assms(1) Inr]
      by (simp add: or_unchanged_def)
  qed
next
  case (Delete_Waitlist sec stu)
  then show ?thesis using assms(2) by simp
qed

lemma gapless_run:
  "gapless db \<Longrightarrow> list_all (\<lambda>s. \<not> is_delete s) stmts \<Longrightarrow> gapless (run db stmts)"
  unfolding run_def
  by (induction stmts arbitrary: db) (simp_all add: gapless_execute)

lemma gapless_empty: "waitlist db = [] \<Longrightarrow> gapless db"
  by (simp add: gapless_def section_positions_def)



text \<open>
  C4. The claim is that positions are contiguous from 1 in every reachable state, also
  after a removal, because removal renumbers. The schema renumbers nothing: after
  two students join the waitlist of section 1 and the first row is deleted, the
  remaining row still has position 2.
\<close>

theorem delete_leaves_gap:
  "section_positions
     (run one_seat [Insert_Waitlist 201 1 1 0, Insert_Waitlist 202 1 2 0]) 1 = [1, 2]
   \<and> section_positions
       (run one_seat [Insert_Waitlist 201 1 1 0, Insert_Waitlist 202 1 2 0, Delete_Waitlist 1 1]) 1 = [2]"
  by (simp add: sql_eval one_seat_def)

text \<open>
  C4, as the schema has it. Start from a database whose positions are contiguous from
  1 in every section (an empty waitlist is one) and run any statements that delete no
  waitlist row: in the state reached, the positions of every section, read in
  insertion order, are \<open>1, 2, ..., N\<close>.
\<close>

theorem positions_gapless_without_removal:
  assumes "gapless db0" and "list_all (\<lambda>s. \<not> is_delete s) stmts"
  shows "section_positions (run db0 stmts) sec =
           [1..int (length (section_positions (run db0 stmts) sec))]"
  using gapless_run [OF assms] by (simp add: gapless_def)

theorem positions_gapless_without_removal_witness:
  "section_positions
     (run one_seat
        [Insert_Waitlist 201 1 1 0, Insert_Enrollment 101 1 1 Enrolled, Insert_Waitlist 202 1 2 7,
         Update_Enrollment 1 1 Dropped, Insert_Waitlist 203 1 3 7]) 1
   = [1..int (length (section_positions
        (run one_seat
           [Insert_Waitlist 201 1 1 0, Insert_Enrollment 101 1 1 Enrolled, Insert_Waitlist 202 1 2 7,
            Update_Enrollment 1 1 Dropped, Insert_Waitlist 203 1 3 7]) 1))]
   \<and> length (section_positions
        (run one_seat
           [Insert_Waitlist 201 1 1 0, Insert_Enrollment 101 1 1 Enrolled, Insert_Waitlist 202 1 2 7,
            Update_Enrollment 1 1 Dropped, Insert_Waitlist 203 1 3 7]) 1) = 3"
proof -
  have g: "gapless one_seat"
    by (rule gapless_empty) (simp add: one_seat_def)
  have d: "list_all (\<lambda>s. \<not> is_delete s)
             [Insert_Waitlist 201 1 1 0, Insert_Enrollment 101 1 1 Enrolled, Insert_Waitlist 202 1 2 7,
              Update_Enrollment 1 1 Dropped, Insert_Waitlist 203 1 3 7]"
    by simp
  have n: "length (section_positions
        (run one_seat
           [Insert_Waitlist 201 1 1 0, Insert_Enrollment 101 1 1 Enrolled, Insert_Waitlist 202 1 2 7,
            Update_Enrollment 1 1 Dropped, Insert_Waitlist 203 1 3 7]) 1) = 3"
    by (simp add: sql_eval one_seat_def)
  show ?thesis
    using positions_gapless_without_removal [OF g d, of 1] n by blast
qed

section \<open>Capacity\<close>

lemma insert_enrollment_full:
  assumes "sections db sec = Some r" and "enrolled_count db sec \<ge> s_capacity r"
  shows "insert_enrollment db eid stu sec st = Inl Section_Full"
  using assms by (simp add: insert_enrollment_def before_enrollment_insert_def Let_def)

lemma insert_enrollment_room:
  assumes "insert_enrollment db eid stu sec st = Inr db'" and "sections db sec = Some r"
  shows "enrolled_count db sec < s_capacity r"
  using assms
  by (auto simp: insert_enrollment_def before_enrollment_insert_def Let_def
           split: sum.splits if_splits)

lemma enrolled_count_insert:
  assumes "insert_enrollment db eid stu sec st = Inr db'"
  shows "enrolled_count db' s =
           enrolled_count db s + (if s = sec \<and> st = Enrolled then 1 else 0)"
  using insert_enrollment_fields(4) [OF assms]
  by (simp add: enrolled_count_def)

lemma capacity_respected_insert:
  assumes c: "capacity_respected db" and i: "insert_enrollment db eid stu sec st = Inr db'"
  shows "capacity_respected db'"
  unfolding capacity_respected_def
proof (intro allI impI)
  fix s r
  assume "sections db' s = Some r"
  then have r: "sections db s = Some r"
    using insert_enrollment_fields(1) [OF i] by simp
  show "enrolled_count db' s \<le> s_capacity r"
  proof (cases "s = sec")
    case True
    then show ?thesis
      using insert_enrollment_room [OF i] r enrolled_count_insert [OF i, of s] by auto
  next
    case False
    then show ?thesis
      using c r enrolled_count_insert [OF i, of s] by (simp add: capacity_respected_def)
  qed
qed

lemma enrolled_count_update:
  assumes "st \<noteq> Enrolled"
  shows "enrolled_count (update_enrollment db stu sec st) s \<le> enrolled_count db s"
proof -
  have "length (filter (\<lambda>e. e_section_id e = s \<and> enrollment_status e = Enrolled)
          (map (\<lambda>e. if e_student_id e = stu \<and> e_section_id e = sec
                     then e\<lparr>enrollment_status := st\<rparr> else e) xs))
        \<le> length (filter (\<lambda>e. e_section_id e = s \<and> enrollment_status e = Enrolled) xs)" for xs
    using assms by (induction xs) auto
  then show ?thesis
    by (simp add: enrolled_count_def update_enrollment_fields)
qed

lemma capacity_respected_cong:
  assumes "sections db' = sections db" and "enrollment db' = enrollment db"
  shows "capacity_respected db' = capacity_respected db"
proof -
  have h: "enrolled_count db' s = enrolled_count db s" for s
    using assms(2) by (rule enrolled_count_cong)
  show ?thesis unfolding capacity_respected_def by (simp only: h assms(1))
qed

lemma capacity_respected_update:
  assumes c: "capacity_respected db" and st: "st \<noteq> Enrolled"
  shows "capacity_respected (update_enrollment db stu sec st)"
  unfolding capacity_respected_def
proof (intro allI impI)
  fix s r
  assume "sections (update_enrollment db stu sec st) s = Some r"
  then have "sections db s = Some r" by (simp add: update_enrollment_fields)
  then have "enrolled_count db s \<le> s_capacity r"
    using c by (simp add: capacity_respected_def)
  then show "enrolled_count (update_enrollment db stu sec st) s \<le> s_capacity r"
    using enrolled_count_update [OF st, of db stu sec s] by linarith
qed

lemma capacity_respected_execute:
  assumes "capacity_respected db" and "\<not> sets_enrolled s"
  shows "capacity_respected (execute db s)"
proof (cases s)
  case (Insert_Enrollment eid stu sec st)
  show ?thesis
  proof (cases "insert_enrollment db eid stu sec st")
    case (Inl e)
    then show ?thesis using assms(1) Insert_Enrollment by (simp add: or_unchanged_def)
  next
    case (Inr db')
    then show ?thesis
      using Insert_Enrollment capacity_respected_insert [OF assms(1) Inr]
      by (simp add: or_unchanged_def)
  qed
next
  case (Update_Enrollment stu sec st)
  then have "st \<noteq> Enrolled" using assms(2) by simp
  then show ?thesis
    using Update_Enrollment capacity_respected_update [OF assms(1)] by simp
next
  case (Insert_Waitlist wid sec stu pos)
  show ?thesis
  proof (cases "insert_waitlist db wid sec stu pos")
    case (Inl e)
    then show ?thesis using assms(1) Insert_Waitlist by (simp add: or_unchanged_def)
  next
    case (Inr db')
    then show ?thesis
      using assms(1) Insert_Waitlist
        capacity_respected_cong [OF insert_waitlist_fields(1) [OF Inr] insert_waitlist_fields(3) [OF Inr]]
      by (simp add: or_unchanged_def)
  qed
next
  case (Delete_Waitlist sec stu)
  then show ?thesis
    using assms(1)
      capacity_respected_cong [OF delete_waitlist_fields(1) delete_waitlist_fields(3), of db sec stu]
    by simp
qed

text \<open>
  Inserts, and updates to a status other than \<open>Enrolled\<close>, keep every section within
  its capacity.
\<close>

lemma capacity_respected_run:
  "capacity_respected db \<Longrightarrow> list_all (\<lambda>s. \<not> sets_enrolled s) stmts
     \<Longrightarrow> capacity_respected (run db stmts)"
  unfolding run_def
  by (induction stmts arbitrary: db) (simp_all add: capacity_respected_execute)

lemma capacity_respected_no_rows:
  assumes "enrollment db = []" and "\<And>sec r. sections db sec = Some r \<Longrightarrow> 0 \<le> s_capacity r"
  shows "capacity_respected db"
  using assms by (simp add: capacity_respected_def enrolled_count_def)

text \<open>
  C1. For every section, in every reachable state, the number of enrollment rows with
  status \<open>Enrolled\<close> is at most the section's capacity. The schema sets out to keep
  this ("Prevent enrollment over capacity") and does so for inserts and for updates
  away from \<open>Enrolled\<close>, as \<open>capacity_respected_run\<close> shows; a status written by an
  \<open>UPDATE\<close> is not checked. In a section with one seat: student 1 enrolls and
  drops, student 2 enrolls, and student 1's row is set back to \<open>Enrolled\<close>. Two
  rows are then \<open>Enrolled\<close> in a section of capacity 1.
\<close>

theorem status_update_exceeds_capacity:
  "sections
     (run one_seat
        [Insert_Enrollment 101 1 1 Enrolled, Update_Enrollment 1 1 Dropped,
         Insert_Enrollment 102 2 1 Enrolled, Update_Enrollment 1 1 Enrolled]) 1
     = Some \<lparr>s_capacity = 1, s_status = Scheduled\<rparr>
   \<and> enrolled_count
       (run one_seat
          [Insert_Enrollment 101 1 1 Enrolled, Update_Enrollment 1 1 Dropped,
           Insert_Enrollment 102 2 1 Enrolled, Update_Enrollment 1 1 Enrolled]) 1 = 2"
  by (simp add: sql_eval one_seat_def)

text \<open>
  The client's guard breaks in its own way. \<open>handleEnroll\<close> reads the counter of the
  first course that has the id and then raises the counter of every course that has
  it. After the admin has deleted course 1 and added a seminar with one seat, the
  seminar shares the id 4 with CMSC351; two enrollments in course 4 pass the guard on
  CMSC351's counter, and the seminar ends with two enrolled students on one seat.
\<close>

theorem reused_course_id_exceeds_capacity:
  "courses two_courses_one_id =
     [\<lparr>c_id = 2, code = ''CMSC330'', capacity = 25, enrolled = 20\<rparr>,
      \<lparr>c_id = 3, code = ''CMSC220'', capacity = 30, enrolled = 22\<rparr>,
      \<lparr>c_id = 4, code = ''CMSC351'', capacity = 28, enrolled = 17\<rparr>,
      \<lparr>c_id = 4, code = ''CMSC498'', capacity = 1, enrolled = 2\<rparr>]
   \<and> map (\<lambda>e. (studentId e, courseId e, status e)) (enrollments two_courses_one_id) =
       [(1, 1, ''enrolled''), (1, 4, ''enrolled''), (3, 4, ''enrolled'')]"
  by (simp add: two_courses_one_id_def handleEnroll_def handleAddCourse_def handleDeleteCourse_def
                initializeDatabase_def seminar_form_def)

section \<open>The audit log\<close>

lemma fold_update_trigger_audit:
  assumes "student_profile d stu = Some u" and "list_all (\<lambda>e. e_student_id e = stu) xs"
  shows "audit_log (fold (\<lambda>old d. after_enrollment_update d old (old\<lparr>enrollment_status := st\<rparr>)) xs d)
         = audit_log d @
           map (\<lambda>old. \<lparr>a_user_id = u, action_type = ''ENROLLMENT_UPDATE'',
                        object_type = ''enrollment'', object_id = enrollment_id old,
                        details = Update_Details (enrollment_status old) st\<rparr>) xs"
  using assms
proof (induction xs arbitrary: d)
  case Nil
  show ?case by simp
next
  case (Cons x xs)
  have p: "student_profile (after_enrollment_update d x (x\<lparr>enrollment_status := st\<rparr>)) stu = Some u"
    using Cons.prems(1) by (simp add: after_enrollment_update_def)
  show ?case
    using Cons.IH [OF p] Cons.prems by (simp add: after_enrollment_update_def)
qed

lemma audit_log_update_enrollment:
  assumes "student_profile db stu = Some u"
  shows "audit_log (update_enrollment db stu sec st)
         = audit_log db @
           map (\<lambda>old. \<lparr>a_user_id = u, action_type = ''ENROLLMENT_UPDATE'',
                        object_type = ''enrollment'', object_id = enrollment_id old,
                        details = Update_Details (enrollment_status old) st\<rparr>)
               (filter (\<lambda>e. e_student_id e = stu \<and> e_section_id e = sec) (enrollment db))"
proof -
  have "list_all (\<lambda>e. e_student_id e = stu)
          (filter (\<lambda>e. e_student_id e = stu \<and> e_section_id e = sec) (enrollment db))"
    by (simp add: list_all_iff)
  then show ?thesis
    unfolding update_enrollment_def
    using fold_update_trigger_audit
            [of "db\<lparr>enrollment := map (\<lambda>e. if e_student_id e = stu \<and> e_section_id e = sec
                          then e\<lparr>enrollment_status := st\<rparr> else e) (enrollment db)\<rparr>" stu u _ st]
          assms
    by simp
qed

lemma audit_log_insert_enrollment:
  assumes "insert_enrollment db eid stu sec st = Inr db'"
  shows "\<exists>u. student_profile db stu = Some u \<and>
           audit_log db' = audit_log db @
             [\<lparr>a_user_id = u, action_type = ''ENROLLMENT_CREATE'',
               object_type = ''enrollment'', object_id = eid,
               details = Create_Details sec st\<rparr>]"
  using assms
  by (auto simp: insert_enrollment_def Let_def after_enrollment_insert_def
           split: sum.splits if_splits)

text \<open>
  C5. The claim is that creating or removing a waitlist row produces one audit row.
  The schema has audit triggers on the enrollment table only: an insert into the
  waitlist stores the row and the audit log stays empty.
\<close>

theorem waitlist_insert_not_audited:
  "waitlist (run one_seat [Insert_Waitlist 201 1 1 0]) =
     [\<lparr>waitlist_id = 201, w_section_id = 1, w_student_id = 1, position = 1\<rparr>]
   \<and> audit_log (run one_seat [Insert_Waitlist 201 1 1 0]) = []"
  by (simp add: sql_eval one_seat_def)

text \<open>
  C5, as the schema has it. An insert into enrollment that succeeds appends exactly one
  audit row, an \<open>ENROLLMENT_CREATE\<close>. A status update of the rows of a student (who has
  a profile, as the foreign key demands) in a section appends exactly one
  \<open>ENROLLMENT_UPDATE\<close> row for each row it rewrites. An insert into the waitlist and
  a delete from it append nothing.
\<close>

theorem audit_rows_per_transition:
  "(insert_enrollment db eid stu sec st = Inr db'
      \<longrightarrow> map action_type (audit_log db') = map action_type (audit_log db) @ [''ENROLLMENT_CREATE''])
   \<and> (student_profile db stu \<noteq> None
      \<longrightarrow> map action_type (audit_log (update_enrollment db stu sec st))
          = map action_type (audit_log db) @
            replicate (length (filter (\<lambda>e. e_student_id e = stu \<and> e_section_id e = sec)
                                      (enrollment db)))
                      ''ENROLLMENT_UPDATE'')
   \<and> (insert_waitlist db wid sec stu pos = Inr db'' \<longrightarrow> audit_log db'' = audit_log db)
   \<and> audit_log (delete_waitlist db sec stu) = audit_log db"
proof (intro conjI impI)
  assume "insert_enrollment db eid stu sec st = Inr db'"
  then show "map action_type (audit_log db') = map action_type (audit_log db) @ [''ENROLLMENT_CREATE'']"
    using audit_log_insert_enrollment [of db eid stu sec st db'] by auto
next
  assume "student_profile db stu \<noteq> None"
  then obtain u where "student_profile db stu = Some u" by auto
  then show "map action_type (audit_log (update_enrollment db stu sec st))
          = map action_type (audit_log db) @
            replicate (length (filter (\<lambda>e. e_student_id e = stu \<and> e_section_id e = sec)
                                      (enrollment db)))
                      ''ENROLLMENT_UPDATE''"
    by (simp add: audit_log_update_enrollment comp_def map_replicate_const)
next
  assume "insert_waitlist db wid sec stu pos = Inr db''"
  then show "audit_log db'' = audit_log db" by (rule insert_waitlist_fields(4))
next
  show "audit_log (delete_waitlist db sec stu) = audit_log db"
    by (rule delete_waitlist_fields(4))
qed

text \<open>
  Student 3 enrolls in section 2 of \<open>queue_of_two\<close>, whose log is empty. In
  \<open>full_with_queue\<close>, whose log holds the row of student 1's enrollment, student 1
  drops, student 3 joins the waitlist, and student 2 leaves it.
\<close>

theorem audit_rows_per_transition_witness:
  "map action_type (audit_log (run queue_of_two [Insert_Enrollment 103 3 2 Enrolled]))
     = map action_type (audit_log queue_of_two) @ [''ENROLLMENT_CREATE'']
   \<and> map action_type (audit_log (update_enrollment full_with_queue 1 1 Dropped))
     = [''ENROLLMENT_CREATE'', ''ENROLLMENT_UPDATE'']
   \<and> audit_log (run full_with_queue [Insert_Waitlist 203 1 3 0]) = audit_log full_with_queue
   \<and> audit_log (delete_waitlist full_with_queue 1 2) = audit_log full_with_queue"
proof -
  have a: "insert_enrollment queue_of_two 103 3 2 Enrolled
             = Inr (run queue_of_two [Insert_Enrollment 103 3 2 Enrolled])"
    by (simp add: sql_eval queue_of_two_def)
  have b: "student_profile full_with_queue 1 \<noteq> None"
    by (simp add: full_with_queue_def)
  have c: "insert_waitlist full_with_queue 203 1 3 0 = Inr (run full_with_queue [Insert_Waitlist 203 1 3 0])"
    by (simp add: sql_eval full_with_queue_def)
  have d: "map action_type (audit_log full_with_queue) @
            replicate (length (filter (\<lambda>e. e_student_id e = 1 \<and> e_section_id e = 1)
                                      (enrollment full_with_queue)))
                      ''ENROLLMENT_UPDATE''
           = [''ENROLLMENT_CREATE'', ''ENROLLMENT_UPDATE'']"
    by (simp add: full_with_queue_def)
  show ?thesis
    using audit_rows_per_transition
            [of queue_of_two 103 3 2 Enrolled
                "run queue_of_two [Insert_Enrollment 103 3 2 Enrolled]" 0 0 queue_of_two]
          audit_rows_per_transition
            [of full_with_queue 0 1 1 Dropped full_with_queue 0 0 full_with_queue]
          audit_rows_per_transition
            [of full_with_queue 0 3 1 Dropped full_with_queue
                203 0 "run full_with_queue [Insert_Waitlist 203 1 3 0]"]
          audit_rows_per_transition
            [of full_with_queue 0 2 1 Dropped full_with_queue 0 0 full_with_queue]
          a b c d
    by simp
qed

section \<open>Dropping\<close>

lemma handleDrop_enrollments:
  "enrollments (fst (handleDrop db u c)) =
     map (\<lambda>e. if studentId e = u \<and> courseId e = c then e\<lparr>status := ''dropped''\<rparr> else e)
         (enrollments db)"
  by (simp add: handleDrop_def)

lemma drop_map_enrolled:
  "filter (\<lambda>e. status e = ''enrolled'')
     (map (\<lambda>e. if studentId e = u \<and> courseId e = c then e\<lparr>status := ''dropped''\<rparr> else e) xs)
   = filter (\<lambda>e. status e = ''enrolled'' \<and> \<not> (studentId e = u \<and> courseId e = c)) xs"
  for xs :: "enrollment_obj list"
  by (induction xs) simp_all

lemma update_map_enrolled:
  "filter (\<lambda>e. enrollment_status e = Enrolled)
     (map (\<lambda>e. if e_student_id e = stu \<and> e_section_id e = sec
                then e\<lparr>enrollment_status := Dropped\<rparr> else e) xs)
   = filter (\<lambda>e. enrollment_status e = Enrolled \<and> \<not> (e_student_id e = stu \<and> e_section_id e = sec)) xs"
  for xs :: "enrollment_row list"
  by (induction xs) simp_all

lemma drop_map_idem:
  "map (\<lambda>e. if studentId e = u \<and> courseId e = c then e\<lparr>status := ''dropped''\<rparr> else e)
     (map (\<lambda>e. if studentId e = u \<and> courseId e = c then e\<lparr>status := ''dropped''\<rparr> else e) xs)
   = map (\<lambda>e. if studentId e = u \<and> courseId e = c then e\<lparr>status := ''dropped''\<rparr> else e) xs"
  for xs :: "enrollment_obj list"
  by (induction xs) simp_all

lemma drop_map_all_dropped:
  "filter (\<lambda>e. studentId e = u \<and> courseId e = c \<and> status e \<noteq> ''dropped'')
     (map (\<lambda>e. if studentId e = u \<and> courseId e = c then e\<lparr>status := ''dropped''\<rparr> else e) xs)
   = []"
  for xs :: "enrollment_obj list"
  by (induction xs) auto

text \<open>
  C2. The claim is that a drop from a full section with a waiting student removes the
  first waitlist row, enrolls that student and renumbers the rest. Nothing in the
  schema or in the client does so. In \<open>full_with_queue\<close> section 1 has one seat,
  taken by student 1, and student 2 waits at position 1. After student 1's row is
  set to \<open>Dropped\<close> the waitlist is as it was and the only enrollment row is student
  1's, now \<open>Dropped\<close>. In the client, \<open>full_course\<close> has one seat taken by user
  1; after \<open>handleDrop\<close> the only enrollment object is user 1's, now dropped.
\<close>

theorem drop_leaves_waitlist:
  "enrolled_count full_with_queue 1 = 1
   \<and> sections full_with_queue 1 = Some \<lparr>s_capacity = 1, s_status = Scheduled\<rparr>
   \<and> waitlist full_with_queue =
       [\<lparr>waitlist_id = 202, w_section_id = 1, w_student_id = 2, position = 1\<rparr>]
   \<and> waitlist (run full_with_queue [Update_Enrollment 1 1 Dropped]) =
       [\<lparr>waitlist_id = 202, w_section_id = 1, w_student_id = 2, position = 1\<rparr>]
   \<and> enrollment (run full_with_queue [Update_Enrollment 1 1 Dropped]) =
       [\<lparr>enrollment_id = 101, e_student_id = 1, e_section_id = 1, enrollment_status = Dropped\<rparr>]
   \<and> enrollments (fst (handleDrop full_course 1 1)) =
       [\<lparr>en_id = 1, studentId = 1, courseId = 1, status = ''dropped'',
         enrolledDate = ''2025-10-15''\<rparr>]"
  by (simp add: sql_eval full_with_queue_def handleDrop_def full_course_def)

lemma fold_update_trigger_audit_any:
  assumes "list_all (\<lambda>e. e_student_id e = stu) xs"
  shows "audit_log (fold (\<lambda>old d. after_enrollment_update d old (old\<lparr>enrollment_status := st\<rparr>)) xs d)
         = audit_log d @
           (case student_profile d stu of
              None \<Rightarrow> []
            | Some u \<Rightarrow>
                map (\<lambda>old. \<lparr>a_user_id = u, action_type = ''ENROLLMENT_UPDATE'',
                             object_type = ''enrollment'', object_id = enrollment_id old,
                             details = Update_Details (enrollment_status old) st\<rparr>) xs)"
  using assms
proof (induction xs arbitrary: d)
  case Nil
  show ?case by (simp split: option.splits)
next
  case (Cons x xs)
  have p: "student_profile (after_enrollment_update d x (x\<lparr>enrollment_status := st\<rparr>)) stu
             = student_profile d stu"
    by (simp add: after_enrollment_update_def)
  show ?case
    using Cons.IH [of "after_enrollment_update d x (x\<lparr>enrollment_status := st\<rparr>)"] Cons.prems
    by (simp add: p) (simp add: after_enrollment_update_def split: option.splits)
qed

lemma audit_log_update_enrollment_any:
  "audit_log (update_enrollment db stu sec st)
     = audit_log db @
       (case student_profile db stu of
          None \<Rightarrow> []
        | Some u \<Rightarrow>
            map (\<lambda>old. \<lparr>a_user_id = u, action_type = ''ENROLLMENT_UPDATE'',
                         object_type = ''enrollment'', object_id = enrollment_id old,
                         details = Update_Details (enrollment_status old) st\<rparr>)
                (filter (\<lambda>e. e_student_id e = stu \<and> e_section_id e = sec) (enrollment db)))"
proof -
  have "list_all (\<lambda>e. e_student_id e = stu)
          (filter (\<lambda>e. e_student_id e = stu \<and> e_section_id e = sec) (enrollment db))"
    by (simp add: list_all_iff)
  then show ?thesis
    unfolding update_enrollment_def
    using fold_update_trigger_audit_any
            [of stu _ st "db\<lparr>enrollment := map (\<lambda>e. if e_student_id e = stu \<and> e_section_id e = sec
                          then e\<lparr>enrollment_status := st\<rparr> else e) (enrollment db)\<rparr>"]
    by simp
qed

text \<open>
  C2, as the code has it. A drop promotes nobody. In the schema, the update to
  \<open>Dropped\<close> gives every row of the dropping student and the section the status
  \<open>Dropped\<close> and leaves every other enrollment row as it was, so that the rows
  \<open>Enrolled\<close> afterwards are exactly those that were \<open>Enrolled\<close> before and belong to
  another student or section; it appends one \<open>ENROLLMENT_UPDATE\<close> audit row for each
  row it rewrote (none when the student has no profile); and it leaves the waitlist,
  the sections and the profiles unchanged. In the client, \<open>handleDrop\<close> gives every
  enrollment object of the user and the course the status dropped and leaves every
  other object as it was, lowers the enrolled counter of every course with that id by
  one, leaves the users and every other field of the database unchanged, and reports
  "Course dropped" as a success.
\<close>

theorem drop_changes_own_records_only:
  "sections (update_enrollment db stu sec Dropped) = sections db
   \<and> student_profile (update_enrollment db stu sec Dropped) = student_profile db
   \<and> waitlist (update_enrollment db stu sec Dropped) = waitlist db
   \<and> enrollment (update_enrollment db stu sec Dropped)
     = map (\<lambda>e. if e_student_id e = stu \<and> e_section_id e = sec
                 then e\<lparr>enrollment_status := Dropped\<rparr> else e) (enrollment db)
   \<and> filter (\<lambda>e. enrollment_status e = Enrolled) (enrollment (update_enrollment db stu sec Dropped))
     = filter (\<lambda>e. enrollment_status e = Enrolled \<and> \<not> (e_student_id e = stu \<and> e_section_id e = sec))
              (enrollment db)
   \<and> audit_log (update_enrollment db stu sec Dropped)
     = audit_log db @
       (case student_profile db stu of
          None \<Rightarrow> []
        | Some usr \<Rightarrow>
            map (\<lambda>old. \<lparr>a_user_id = usr, action_type = ''ENROLLMENT_UPDATE'',
                         object_type = ''enrollment'', object_id = enrollment_id old,
                         details = Update_Details (enrollment_status old) Dropped\<rparr>)
                (filter (\<lambda>e. e_student_id e = stu \<and> e_section_id e = sec) (enrollment db)))
   \<and> enrollments (fst (handleDrop jdb u c))
     = map (\<lambda>e. if studentId e = u \<and> courseId e = c then e\<lparr>status := ''dropped''\<rparr> else e)
           (enrollments jdb)
   \<and> filter (\<lambda>e. status e = ''enrolled'') (enrollments (fst (handleDrop jdb u c)))
     = filter (\<lambda>e. status e = ''enrolled'' \<and> \<not> (studentId e = u \<and> courseId e = c)) (enrollments jdb)
   \<and> courses (fst (handleDrop jdb u c))
     = map (\<lambda>k. if c_id k = c then k\<lparr>enrolled := enrolled k - 1\<rparr> else k) (courses jdb)
   \<and> users (fst (handleDrop jdb u c)) = users jdb
   \<and> database.more (fst (handleDrop jdb u c)) = database.more jdb
   \<and> snd (handleDrop jdb u c) = Some (''Course dropped'', ''success'')"
proof -
  have "courses (fst (handleDrop jdb u c))
     = map (\<lambda>k. if c_id k = c then k\<lparr>enrolled := enrolled k - 1\<rparr> else k) (courses jdb)"
    by (simp add: handleDrop_def)
  moreover have "users (fst (handleDrop jdb u c)) = users jdb"
    by (simp add: handleDrop_def)
  moreover have "database.more (fst (handleDrop jdb u c)) = database.more jdb"
    by (simp add: handleDrop_def)
  moreover have "snd (handleDrop jdb u c) = Some (''Course dropped'', ''success'')"
    by (simp add: handleDrop_def)
  ultimately show ?thesis
    by (simp add: update_enrollment_fields update_map_enrolled handleDrop_enrollments
                  drop_map_enrolled audit_log_update_enrollment_any)
qed

text \<open>
  In \<open>full_with_queue\<close> student 1 drops section 1: the row is \<open>Dropped\<close>, nobody is
  \<open>Enrolled\<close>, student 2 still waits at position 1 and the log has its second row. In
  \<open>full_course\<close> user 1 drops course 1: the object is dropped and the counter is 0.
\<close>

theorem drop_changes_own_records_only_witness:
  "waitlist (update_enrollment full_with_queue 1 1 Dropped) =
     [\<lparr>waitlist_id = 202, w_section_id = 1, w_student_id = 2, position = 1\<rparr>]
   \<and> enrollment (update_enrollment full_with_queue 1 1 Dropped) =
     [\<lparr>enrollment_id = 101, e_student_id = 1, e_section_id = 1, enrollment_status = Dropped\<rparr>]
   \<and> filter (\<lambda>e. enrollment_status e = Enrolled)
        (enrollment (update_enrollment full_with_queue 1 1 Dropped)) = []
   \<and> audit_log (update_enrollment full_with_queue 1 1 Dropped) =
     [\<lparr>a_user_id = 9, action_type = ''ENROLLMENT_CREATE'', object_type = ''enrollment'',
       object_id = 101, details = Create_Details 1 Enrolled\<rparr>,
      \<lparr>a_user_id = 9, action_type = ''ENROLLMENT_UPDATE'', object_type = ''enrollment'',
       object_id = 101, details = Update_Details Enrolled Dropped\<rparr>]
   \<and> enrollments (fst (handleDrop full_course 1 1)) =
     [\<lparr>en_id = 1, studentId = 1, courseId = 1, status = ''dropped'',
       enrolledDate = ''2025-10-15''\<rparr>]
   \<and> courses (fst (handleDrop full_course 1 1)) =
     [\<lparr>c_id = 1, code = ''CMSC495'', capacity = 1, enrolled = 0\<rparr>]
   \<and> users (fst (handleDrop full_course 1 1)) = users full_course"
  using drop_changes_own_records_only [of full_with_queue 1 1 full_course 1 1]
  by (simp add: full_with_queue_def full_course_def)

text \<open>
  C3. The claim is that a second drop of the same pair fails with NotEnrolled and
  leaves the state, the enrolled count included, unchanged. \<open>handleDrop\<close> has no
  failing outcome. From the initial database, where user 1 is enrolled in course 1
  and the course counts 18 enrolled: the first drop leaves the count at 17, the second
  at 16, and the second reports "Course dropped" as a success.
\<close>

theorem second_handleDrop_succeeds:
  "map enrolled (courses (fst (handleDrop initializeDatabase 1 1))) = [17, 20, 22, 15]
   \<and> map enrolled (courses (fst (handleDrop (fst (handleDrop initializeDatabase 1 1)) 1 1)))
     = [16, 20, 22, 15]
   \<and> snd (handleDrop (fst (handleDrop initializeDatabase 1 1)) 1 1)
     = Some (''Course dropped'', ''success'')"
  by (simp add: handleDrop_def initializeDatabase_def)

text \<open>
  C3, as the code has it. After one \<open>handleDrop\<close> for a pair no enrollment object of
  the pair has a status other than dropped; a second \<open>handleDrop\<close> for the pair
  leaves every enrollment object as the first left it, so the transition to dropped
  happens once; and the second call reports "Course dropped" as a success.
\<close>

theorem handleDrop_twice:
  "filter (\<lambda>e. studentId e = u \<and> courseId e = c \<and> status e \<noteq> ''dropped'')
      (enrollments (fst (handleDrop db u c))) = []
   \<and> enrollments (fst (handleDrop (fst (handleDrop db u c)) u c))
     = enrollments (fst (handleDrop db u c))
   \<and> snd (handleDrop (fst (handleDrop db u c)) u c) = Some (''Course dropped'', ''success'')"
proof -
  have "snd (handleDrop (fst (handleDrop db u c)) u c) = Some (''Course dropped'', ''success'')"
    by (simp add: handleDrop_def)
  then show ?thesis
    by (simp add: handleDrop_enrollments drop_map_idem drop_map_all_dropped)
qed

theorem handleDrop_twice_witness:
  "filter (\<lambda>e. studentId e = 1 \<and> courseId e = 1 \<and> status e \<noteq> ''dropped'')
      (enrollments (fst (handleDrop initializeDatabase 1 1))) = []
   \<and> enrollments (fst (handleDrop (fst (handleDrop initializeDatabase 1 1)) 1 1))
     = [\<lparr>en_id = 1, studentId = 1, courseId = 1, status = ''dropped'',
         enrolledDate = ''2025-10-15''\<rparr>]
   \<and> snd (handleDrop (fst (handleDrop initializeDatabase 1 1)) 1 1)
     = Some (''Course dropped'', ''success'')"
proof -
  have "enrollments (fst (handleDrop initializeDatabase 1 1))
        = [\<lparr>en_id = 1, studentId = 1, courseId = 1, status = ''dropped'',
            enrolledDate = ''2025-10-15''\<rparr>]"
    by (simp add: handleDrop_def initializeDatabase_def)
  then show ?thesis
    using handleDrop_twice [of 1 1 initializeDatabase] by simp
qed

section \<open>Enrolling\<close>

lemma insert_enrollment_duplicate:
  assumes "list_ex (\<lambda>e. e_student_id e = stu \<and> e_section_id e = sec) (enrollment db)"
  shows "insert_enrollment db eid stu sec st = Inl Section_Full
         \<or> insert_enrollment db eid stu sec st = Inl Duplicate_Entry"
proof -
  have "list_ex (\<lambda>e. enrollment_id e = eid \<or> (e_student_id e = stu \<and> e_section_id e = sec))
          (enrollment db)"
    using assms by (auto simp: list_ex_iff)
  then show ?thesis
    by (auto simp: insert_enrollment_def before_enrollment_insert_def Let_def
             split: sum.splits option.splits if_splits)
qed

text \<open>
  C6. The claim is that a request for a full offering creates a waitlist entry and
  returns a Waitlisted success. In \<open>full_course\<close> course 1 has one seat, taken by
  user 1; when user 3 asks for it \<open>handleEnroll\<close> reports the error "Course full"
  and returns the database unchanged. In \<open>full_with_queue\<close> the insert of an
  \<open>Enrolled\<close> row for student 3 is rejected by the trigger, and nothing is stored.
\<close>

theorem handleEnroll_full_is_error:
  "handleEnroll full_course 3 ''2025-11-10'' 1 = (full_course, Some (''Course full'', ''error''))
   \<and> insert_enrollment full_with_queue 103 3 1 Enrolled = Inl Section_Full
   \<and> run full_with_queue [Insert_Enrollment 103 3 1 Enrolled] = full_with_queue"
  by (simp add: handleEnroll_def full_course_def sql_eval full_with_queue_def)

text \<open>
  C6, as the code has it. A call of \<open>handleEnroll\<close> for a course whose enrolled count
  has reached its capacity reports the error "Course full" and returns the database
  unchanged; an insert into enrollment for a section whose count of \<open>Enrolled\<close> rows
  has reached its capacity is rejected with "Section is at full capacity". Neither
  creates a waitlist entry, and there is no Waitlisted outcome.
\<close>

theorem full_course_rejected:
  "(find (\<lambda>c. c_id c = cid) (courses jdb) = Some c \<and> enrolled c \<ge> capacity c
      \<longrightarrow> handleEnroll jdb u today cid = (jdb, Some (''Course full'', ''error'')))
   \<and> (sections db sec = Some r \<and> enrolled_count db sec \<ge> s_capacity r
      \<longrightarrow> insert_enrollment db eid stu sec st = Inl Section_Full
          \<and> execute db (Insert_Enrollment eid stu sec st) = db)"
  using insert_enrollment_full [of db sec r eid stu st]
  by (auto simp: handleEnroll_def or_unchanged_def)

theorem full_course_rejected_witness:
  "handleEnroll full_course 3 ''2025-11-10'' 1 = (full_course, Some (''Course full'', ''error''))
   \<and> insert_enrollment full_with_queue 103 3 1 Withdrawn = Inl Section_Full
   \<and> execute full_with_queue (Insert_Enrollment 103 3 1 Withdrawn) = full_with_queue"
proof -
  have a: "find (\<lambda>c. c_id c = 1) (courses full_course)
             = Some \<lparr>c_id = 1, code = ''CMSC495'', capacity = 1, enrolled = 1\<rparr>"
    by (simp add: full_course_def)
  have b: "sections full_with_queue 1 = Some \<lparr>s_capacity = 1, s_status = Scheduled\<rparr>"
    by (simp add: full_with_queue_def)
  have c: "enrolled_count full_with_queue 1 = 1"
    by (simp add: enrolled_count_def full_with_queue_def)
  show ?thesis
    using full_course_rejected
            [of 1 full_course "\<lparr>c_id = 1, code = ''CMSC495'', capacity = 1, enrolled = 1\<rparr>"
                3 "''2025-11-10''" full_with_queue 1
                "\<lparr>s_capacity = 1, s_status = Scheduled\<rparr>" 103 3 Withdrawn]
          a b c
    by (simp add: or_unchanged_def)
qed

text \<open>
  C7. The claim is that a request by a student who is already enrolled fails with
  AlreadyActive and changes nothing. \<open>handleEnroll\<close> looks at the course only. In the
  initial database user 1 is enrolled in course 1, which has room; a call by user 1
  for course 1 appends a second enrolled object for the pair, raises the count from
  18 to 19 and reports a success.
\<close>

theorem handleEnroll_enrolls_twice:
  "list_ex (\<lambda>e. studentId e = 1 \<and> courseId e = 1 \<and> status e = ''enrolled'')
     (enrollments initializeDatabase)
   \<and> handleEnroll initializeDatabase 1 ''2025-11-10'' 1 =
       (initializeDatabase
          \<lparr>enrollments :=
              [\<lparr>en_id = 1, studentId = 1, courseId = 1, status = ''enrolled'',
                enrolledDate = ''2025-10-15''\<rparr>,
               \<lparr>en_id = 2, studentId = 1, courseId = 1, status = ''enrolled'',
                enrolledDate = ''2025-11-10''\<rparr>],
            courses :=
              [\<lparr>c_id = 1, code = ''CMSC495'', capacity = 30, enrolled = 19\<rparr>,
               \<lparr>c_id = 2, code = ''CMSC330'', capacity = 25, enrolled = 20\<rparr>,
               \<lparr>c_id = 3, code = ''CMSC220'', capacity = 30, enrolled = 22\<rparr>,
               \<lparr>c_id = 4, code = ''CMSC351'', capacity = 28, enrolled = 15\<rparr>]\<rparr>,
        Some (''Enrolled successfully'', ''success''))"
  by (simp add: handleEnroll_def initializeDatabase_def)

text \<open>
  C7, as the code has it. It is the enrollment table that refuses a second row for a
  pair: when a row for the student and the section exists, whatever its status, an
  insert for the pair fails, as a duplicate or because the section is full, and the
  statement leaves the database unchanged. \<open>handleEnroll\<close> makes no such check: for a
  course that exists and has room it always appends one enrolled object and reports a
  success.
\<close>

theorem enrollment_pair_unique:
  "(list_ex (\<lambda>e. e_student_id e = stu \<and> e_section_id e = sec) (enrollment db)
      \<longrightarrow> (insert_enrollment db eid stu sec st = Inl Section_Full
           \<or> insert_enrollment db eid stu sec st = Inl Duplicate_Entry)
          \<and> execute db (Insert_Enrollment eid stu sec st) = db)
   \<and> (find (\<lambda>c. c_id c = cid) (courses jdb) = Some c \<and> enrolled c < capacity c
      \<longrightarrow> snd (handleEnroll jdb u today cid) = Some (''Enrolled successfully'', ''success'')
          \<and> enrollments (fst (handleEnroll jdb u today cid))
            = enrollments jdb @
              [\<lparr>en_id = int (length (enrollments jdb)) + 1, studentId = u, courseId = cid,
                status = ''enrolled'', enrolledDate = today\<rparr>])"
  using insert_enrollment_duplicate [of stu sec db eid st]
  by (auto simp: handleEnroll_def or_unchanged_def)

theorem enrollment_pair_unique_witness:
  "insert_enrollment
     (run one_seat [Insert_Enrollment 101 1 1 Enrolled, Update_Enrollment 1 1 Dropped]) 102 1 1 Enrolled
     = Inl Duplicate_Entry
   \<and> insert_enrollment full_with_queue 102 1 1 Enrolled = Inl Section_Full
   \<and> execute full_with_queue (Insert_Enrollment 102 1 1 Enrolled) = full_with_queue
   \<and> snd (handleEnroll initializeDatabase 1 ''2025-11-10'' 1)
     = Some (''Enrolled successfully'', ''success'')
   \<and> length (enrollments (fst (handleEnroll initializeDatabase 1 ''2025-11-10'' 1))) = 2"
proof -
  have a: "list_ex (\<lambda>e. e_student_id e = 1 \<and> e_section_id e = 1) (enrollment full_with_queue)"
    by (simp add: full_with_queue_def)
  have b: "find (\<lambda>c. c_id c = 1) (courses initializeDatabase)
             = Some \<lparr>c_id = 1, code = ''CMSC495'', capacity = 30, enrolled = 18\<rparr>"
    by (simp add: initializeDatabase_def)
  have c: "insert_enrollment
     (run one_seat [Insert_Enrollment 101 1 1 Enrolled, Update_Enrollment 1 1 Dropped]) 102 1 1 Enrolled
     = Inl Duplicate_Entry"
    by (simp add: sql_eval one_seat_def)
  have d: "insert_enrollment full_with_queue 102 1 1 Enrolled = Inl Section_Full"
    by (simp add: sql_eval full_with_queue_def)
  have e: "length (enrollments initializeDatabase) = 1"
    by (simp add: initializeDatabase_def)
  show ?thesis
    using enrollment_pair_unique
            [of 1 1 full_with_queue 102 Enrolled 1 initializeDatabase
                "\<lparr>c_id = 1, code = ''CMSC495'', capacity = 30, enrolled = 18\<rparr>" 1 "''2025-11-10''"]
          a b c d e
    by (simp add: or_unchanged_def)
qed

section \<open>Requests served in turn\<close>














section \<open>A failed enrollment changes nothing\<close>

text \<open>
  C9. A call of the enroll handler for a course id that no course has, or for a course
  whose enrolled count has reached its capacity, returns the database it was given:
  users, courses, enrollments and every other field are unchanged.
\<close>

theorem handleEnroll_failed_unchanged:
  assumes "find (\<lambda>c. c_id c = cid) (courses db) = None
           \<or> (\<exists>c. find (\<lambda>c. c_id c = cid) (courses db) = Some c \<and> enrolled c \<ge> capacity c)"
  shows "fst (handleEnroll db currentUser_id today cid) = db"
  using assms by (auto simp: handleEnroll_def)

theorem handleEnroll_failed_unchanged_witness:
  "fst (handleEnroll initializeDatabase 1 ''2025-11-10'' 7) = initializeDatabase
   \<and> fst (handleEnroll
            (initializeDatabase\<lparr>courses := [\<lparr>c_id = 1, code = ''CMSC495'', capacity = 30, enrolled = 30\<rparr>]\<rparr>)
            1 ''2025-11-10'' 1)
       = initializeDatabase\<lparr>courses := [\<lparr>c_id = 1, code = ''CMSC495'', capacity = 30, enrolled = 30\<rparr>]\<rparr>"
proof -
  have a: "find (\<lambda>c. c_id c = 7) (courses initializeDatabase) = None"
    by (simp add: initializeDatabase_def)
  let ?full = "initializeDatabase\<lparr>courses := [\<lparr>c_id = 1, code = ''CMSC495'', capacity = 30, enrolled = 30\<rparr>]\<rparr>"
  have b: "\<exists>c. find (\<lambda>c. c_id c = 1) (courses ?full) = Some c \<and> enrolled c \<ge> capacity c"
    by simp
  show ?thesis
    using handleEnroll_failed_unchanged [of 7 initializeDatabase 1 "''2025-11-10''", OF disjI1, OF a]
          handleEnroll_failed_unchanged [of 1 ?full 1 "''2025-11-10''", OF disjI2, OF b]
    by simp
qed

end
